theory Spec2Isabelle
  imports Main
begin

section \<open>The StatusPage.io HTTP client\<close>

text \<open>
  A shallow embedding of \<^verbatim>\<open>statuspageio/http_client.py\<close> and
  \<^verbatim>\<open>statuspageio/errors.py\<close>.

  Python values are given the types the code documents for them: paths, methods, the
  base URL, the API key and the container name are \<^verbatim>\<open>str\<close>; bodies, query
  parameters, header values and decoded JSON are values of \<open>pyval\<close>. Floating point
  numbers are not part of \<open>pyval\<close>. An exception is the \<open>Inl\<close> side of a sum.
  The libraries the client calls (\<^verbatim>\<open>requests.request\<close>, \<^verbatim>\<open>json.dumps\<close>,
  \<^verbatim>\<open>float\<close>, and \<^verbatim>\<open>DotMap\<close> on arguments that are not mappings) are
  parameters, collected in the record \<open>env\<close>.
\<close>

subsection \<open>Python values\<close>

text \<open>
  What \<^verbatim>\<open>json.loads\<close> can return, floats apart: \<^verbatim>\<open>None\<close>, \<^verbatim>\<open>bool\<close>,
  \<^verbatim>\<open>int\<close>, \<^verbatim>\<open>str\<close>, \<^verbatim>\<open>list\<close> and \<^verbatim>\<open>dict\<close> with string keys. A
  dictionary is an association list in insertion order; Python dictionaries hold each key
  once, and lookups take the first entry.
\<close>

datatype pyval =
    PNone
  | PBool bool
  | PInt int
  | PStr string
  | PList "pyval list"
  | PDict "(string \<times> pyval) list"

text \<open>
  Values that have been through the \<^verbatim>\<open>DotMap\<close> constructor: a \<^verbatim>\<open>DotMap\<close> object
  (\<open>DotMapV\<close>, keys in insertion order), a list rebuilt by the constructor (\<open>ListV\<close>),
  or a value the constructor left as it was (\<open>Plain\<close>).
\<close>

datatype dotval =
    Plain pyval
  | DotMapV "(string \<times> dotval) list"
  | ListV "dotval list"

text \<open>The third component of the tuple that \<^verbatim>\<open>request\<close> returns.\<close>

datatype resp_body =
    Decoded dotval
  | Content string

subsection \<open>Exceptions\<close>

text \<open>
  \<open>ConfigurationError\<close>, \<open>RateLimitError\<close>, \<open>RequestError\<close>, \<open>ResourceError\<close> and
  \<open>ServerError\<close> are the classes of \<^verbatim>\<open>errors.py\<close>; the three subclasses of
  \<^verbatim>\<open>BaseError\<close> carry \<^verbatim>\<open>http_status\<close> and \<^verbatim>\<open>errors\<close>. \<open>PyException msg\<close> is
  the builtin \<^verbatim>\<open>Exception(msg)\<close>. \<open>ConnectionError\<close> stands for what the transport
  raises.
\<close>

datatype py_error =
    ConfigurationError string
  | RateLimitError
  | RequestError int pyval
  | ResourceError int pyval
  | ServerError int pyval
  | PyException string
  | KeyError string
  | TypeError
  | ValueError
  | OverflowError
  | JSONDecodeError
  | ConnectionError

subsection \<open>Builtin operations\<close>

text \<open>\<^verbatim>\<open>sub in s\<close> on strings: \<open>sub\<close> occurs in \<open>s\<close> as a contiguous piece.\<close>

fun py_substring :: "string \<Rightarrow> string \<Rightarrow> bool" where
  "py_substring sub [] = (sub = [])"
| "py_substring sub (c # cs) = (take (length sub) (c # cs) = sub \<or> py_substring sub cs)"

text \<open>\<^verbatim>\<open>bool(v)\<close>.\<close>

fun py_bool :: "pyval \<Rightarrow> bool" where
  "py_bool PNone = False"
| "py_bool (PBool b) = b"
| "py_bool (PInt n) = (n \<noteq> 0)"
| "py_bool (PStr s) = (s \<noteq> [])"
| "py_bool (PList xs) = (xs \<noteq> [])"
| "py_bool (PDict kvs) = (kvs \<noteq> [])"

text \<open>\<^verbatim>\<open>key in v\<close> for a string \<open>key\<close>; numbers, booleans and \<^verbatim>\<open>None\<close> are not containers.\<close>

fun py_contains :: "string \<Rightarrow> pyval \<Rightarrow> py_error + bool" where
  "py_contains key (PDict kvs) = Inr (map_of kvs key \<noteq> None)"
| "py_contains key (PList xs) = Inr (PStr key \<in> set xs)"
| "py_contains key (PStr s) = Inr (py_substring key s)"
| "py_contains key v = Inl TypeError"

text \<open>\<^verbatim>\<open>v[key]\<close> for a string \<open>key\<close>; lists and strings take integer indices only.\<close>

fun py_getitem :: "pyval \<Rightarrow> string \<Rightarrow> py_error + pyval" where
  "py_getitem (PDict kvs) key =
     (case map_of kvs key of None \<Rightarrow> Inl (KeyError key) | Some v \<Rightarrow> Inr v)"
| "py_getitem v key = Inl TypeError"

text \<open>
  \<^verbatim>\<open>for x in v\<close>: the elements of a list, the keys of a dictionary, the characters of a
  string.
\<close>

fun py_iter :: "pyval \<Rightarrow> py_error + pyval list" where
  "py_iter (PList xs) = Inr xs"
| "py_iter (PDict kvs) = Inr (map (\<lambda>kv. PStr (fst kv)) kvs)"
| "py_iter (PStr s) = Inr (map (\<lambda>c. PStr [c]) s)"
| "py_iter v = Inl TypeError"

text \<open>\<^verbatim>\<open>isinstance(v, dict)\<close> and \<^verbatim>\<open>list(v.keys())\<close>.\<close>

fun is_dict :: "pyval \<Rightarrow> bool" where
  "is_dict (PDict kvs) = True"
| "is_dict v = False"

fun py_keys :: "pyval \<Rightarrow> string list" where
  "py_keys (PDict kvs) = map fst kvs"
| "py_keys v = []"

text \<open>A list comprehension \<^verbatim>\<open>[f(x) for x in xs]\<close>: the first exception ends it.\<close>

fun comprehension :: "('a \<Rightarrow> py_error + 'b) \<Rightarrow> 'a list \<Rightarrow> py_error + 'b list" where
  "comprehension f [] = Inr []"
| "comprehension f (x # xs) =
     (case f x of
        Inl e \<Rightarrow> Inl e
      | Inr y \<Rightarrow> (case comprehension f xs of Inl e \<Rightarrow> Inl e | Inr ys \<Rightarrow> Inr (y # ys)))"

text \<open>\<^verbatim>\<open>str(n)\<close> for an integer, as an f-string formats \<^verbatim>\<open>resp.status_code\<close>.\<close>

definition digit_char :: "nat \<Rightarrow> char" where
  "digit_char d = ''0123456789'' ! d"

fun str_nat :: "nat \<Rightarrow> string" where
  "str_nat n = (if n < 10 then [digit_char n] else str_nat (n div 10) @ [digit_char (n mod 10)])"

declare str_nat.simps [simp del]

definition str_int :: "int \<Rightarrow> string" where
  "str_int i = (if i < 0 then ''-'' @ str_nat (nat (- i)) else str_nat (nat i))"

subsection \<open>DotMap\<close>

text \<open>
  \<^verbatim>\<open>DotMap\<close> belongs to the package \<^verbatim>\<open>dotmap\<close>, not to the repository. On a
  dictionary its constructor keeps the keys in order and stores under each key the value
  \<open>dotmap_value v\<close>: a dictionary becomes a \<^verbatim>\<open>DotMap\<close> in turn, a list is rebuilt with
  its dictionary elements turned into \<^verbatim>\<open>DotMap\<close>s and its other elements untouched, and
  anything else is stored as it is.
\<close>

fun dotmap_value :: "pyval \<Rightarrow> dotval" where
  "dotmap_value (PDict kvs) = DotMapV (map (\<lambda>(k, v). (k, dotmap_value v)) kvs)"
| "dotmap_value (PList xs) =
     ListV (map (\<lambda>i. case i of PDict kvs \<Rightarrow> dotmap_value i | _ \<Rightarrow> Plain i) xs)"
| "dotmap_value v = Plain v"

text \<open>
  What the constructor does with an argument that is no mapping differs between releases
  of the package, so that part is the parameter \<open>other\<close>.
\<close>

definition DotMap :: "(pyval \<Rightarrow> py_error + dotval) \<Rightarrow> pyval \<Rightarrow> py_error + dotval" where
  "DotMap other d = (case d of PDict kvs \<Rightarrow> Inr (dotmap_value d) | _ \<Rightarrow> other d)"

text \<open>The keys of a \<^verbatim>\<open>DotMap\<close>, and the plain value under the wrappers.\<close>

fun keys :: "dotval \<Rightarrow> string list" where
  "keys (DotMapV kvs) = map fst kvs"
| "keys v = []"

fun is_DotMap :: "dotval \<Rightarrow> bool" where
  "is_DotMap (DotMapV kvs) = True"
| "is_DotMap v = False"

fun toDict :: "dotval \<Rightarrow> pyval" where
  "toDict (Plain v) = v"
| "toDict (DotMapV kvs) = PDict (map (\<lambda>(k, v). (k, toDict v)) kvs)"
| "toDict (ListV xs) = PList (map toDict xs)"

subsection \<open>Configuration, options, requests and responses\<close>

text \<open>
  The configuration as \<^verbatim>\<open>request\<close> uses it: it reads four attributes, formats the
  base URL into a string at line 122 and concatenates the API key to a string at line
  126, so both are strings here. A configuration whose key or URL is missing is a value
  of \<open>client_options\<close>, below.
\<close>

record configuration =
  base_url :: string
  api_key :: string
  timeout :: pyval
  verify_ssl :: bool

text \<open>
  The keyword arguments \<^verbatim>\<open>**kwargs\<close> that \<^verbatim>\<open>request\<close> reads; \<open>None\<close> is a key
  that is absent. No other key is looked at.
\<close>

record kwargs =
  kw_headers :: "pyval option"
  kw_raw :: "pyval option"
  kw_container :: "string option"

definition no_kwargs :: kwargs where
  "no_kwargs = \<lparr>kw_headers = None, kw_raw = None, kw_container = None\<rparr>"

text \<open>The arguments of one call of \<^verbatim>\<open>requests.request\<close>.\<close>

record 'f http_request =
  req_method :: string
  req_url :: string
  req_params :: pyval
  req_data :: "string option"
  req_headers :: "string \<rightharpoonup> pyval"
  req_timeout :: 'f
  req_verify :: bool

text \<open>
  What the client reads of a \<^verbatim>\<open>requests.Response\<close>. \<open>resp_headers\<close> is the lookup of
  the header dictionary, \<open>resp_json\<close> the result of \<^verbatim>\<open>resp.json()\<close>, with \<open>None\<close> when
  the body does not decode and the method raises.
\<close>

record response =
  status_code :: int
  resp_headers :: "string \<rightharpoonup> string"
  resp_text :: string
  resp_content :: string
  resp_json :: "pyval option"

text \<open>
  The library functions: \<^verbatim>\<open>json.dumps\<close>, \<^verbatim>\<open>float\<close> (whose result type is left
  open), \<^verbatim>\<open>requests.request\<close>, and \<^verbatim>\<open>DotMap\<close> on arguments that are no mappings.
\<close>

record 'f env =
  json_dumps :: "pyval \<Rightarrow> string"
  py_float :: "pyval \<Rightarrow> py_error + 'f"
  http :: "'f http_request \<Rightarrow> py_error + response"
  dotmap_other :: "pyval \<Rightarrow> py_error + dotval"

subsection \<open>errors.py\<close>

text \<open>
  \<^verbatim>\<open>BaseError.__init__\<close> stores the status and the payload and builds its message by
  iterating over the payload, so a payload that cannot be iterated over raises
  \<^verbatim>\<open>TypeError\<close> in place of the error under construction. The message text itself and
  the constant \<^verbatim>\<open>logref\<close> are left out. The result is the exception that the
  \<^verbatim>\<open>raise\<close> statement ends up raising.
\<close>

definition BaseError_init :: "(int \<Rightarrow> pyval \<Rightarrow> py_error) \<Rightarrow> int \<Rightarrow> pyval \<Rightarrow> py_error" where
  "BaseError_init cls http_status errors_payload =
     (case py_iter errors_payload of
        Inl e \<Rightarrow> e
      | Inr errors \<Rightarrow> cls http_status errors_payload)"

subsection \<open>http_client.py\<close>

definition API_VERSION :: string where
  "API_VERSION = ''/v1''"

definition handle_error_response :: "response \<Rightarrow> py_error + unit" where
  "handle_error_response resp =
     (case resp_json resp of
        None \<Rightarrow>
          Inl (PyException (''Unknown HTTP error response. Json expected. ''
                 @ ''HTTP response code='' @ str_int (status_code resp) @ ''. ''
                 @ ''HTTP response body='' @ resp_text resp))
      | Some errors \<Rightarrow>
          (let resp_code = status_code resp in
           if resp_code = 422 then Inl (BaseError_init ResourceError resp_code errors)
           else if resp_code = 420 then Inl RateLimitError
           else if 400 \<le> resp_code \<and> resp_code < 500
             then Inl (BaseError_init RequestError resp_code errors)
           else if 500 \<le> resp_code \<and> resp_code < 600
             then Inl (BaseError_init ServerError resp_code errors)
           else Inl (PyException ''Unknown HTTP error response'')))"

definition wrap_envelope :: "string \<Rightarrow> pyval \<Rightarrow> pyval" where
  "wrap_envelope container body = PDict [(container, body)]"

definition unwrap_envelope :: "(pyval \<Rightarrow> py_error + dotval) \<Rightarrow> pyval \<Rightarrow> py_error + dotval" where
  "unwrap_envelope other body =
     (case py_contains ''items'' body of
        Inl e \<Rightarrow> Inl e
      | Inr True \<Rightarrow>
          (case py_getitem body ''items'' of
             Inl e \<Rightarrow> Inl e
           | Inr items \<Rightarrow>
               (case py_iter items of
                  Inl e \<Rightarrow> Inl e
                | Inr xs \<Rightarrow>
                    (case comprehension (DotMap other) xs of
                       Inl e \<Rightarrow> Inl e
                     | Inr ys \<Rightarrow> Inr (ListV ys))))
      | Inr False \<Rightarrow> DotMap other body)"

text \<open>
  Lines 129 to 131: the caller's headers count when \<^verbatim>\<open>kwargs['headers']\<close> is a
  dictionary. Line 135: \<^verbatim>\<open>raw = bool(kwargs['raw']) if 'raw' in kwargs else False\<close>.
\<close>

definition user_headers :: "kwargs \<Rightarrow> (string \<rightharpoonup> pyval)" where
  "user_headers kw = (case kw_headers kw of Some (PDict d) \<Rightarrow> map_of d | _ \<Rightarrow> Map.empty)"

definition raw_option :: "kwargs \<Rightarrow> bool" where
  "raw_option kw = (case kw_raw kw of Some r \<Rightarrow> py_bool r | None \<Rightarrow> False)"

text \<open>
  \<^verbatim>\<open>request\<close> is given in three parts. \<open>request_args\<close> is lines 122 to 147 up to
  the call of \<^verbatim>\<open>requests.request\<close>: it builds the arguments of that call, or raises.
  \<open>body\<close> and \<open>params\<close> are \<open>PNone\<close> when the caller leaves them out.
\<close>

definition request_args ::
  "'f env \<Rightarrow> configuration \<Rightarrow> string \<Rightarrow> string \<Rightarrow> pyval \<Rightarrow> pyval \<Rightarrow> kwargs
     \<Rightarrow> py_error + 'f http_request" where
  "request_args e config method url params body kw =
     (let url = base_url config @ API_VERSION @ url;
          headers = [''Content-Type'' \<mapsto> PStr ''application/x-www-form-urlencoded'',
                     ''Authorization'' \<mapsto> PStr (''OAuth '' @ api_key config)];
          headers = headers ++ user_headers kw;
          raw = raw_option kw
      in
      case (if body \<noteq> PNone
            then (case (if raw then Inr body
                        else (case kw_container kw of
                                None \<Rightarrow> Inl (KeyError ''container'')
                              | Some container \<Rightarrow> Inr (wrap_envelope container body)))
                  of Inl err \<Rightarrow> Inl err
                   | Inr payload \<Rightarrow>
                       Inr (headers(''Content-Type'' \<mapsto> PStr ''application/json''),
                            Some (json_dumps e payload)))
            else Inr (headers, None))
      of Inl err \<Rightarrow> Inl err
       | Inr (headers, data) \<Rightarrow>
      (case py_float e (timeout config) of
         Inl err \<Rightarrow> Inl err
       | Inr t \<Rightarrow>
           Inr \<lparr>req_method = method, req_url = url, req_params = params,
                req_data = data, req_headers = headers, req_timeout = t,
                req_verify = verify_ssl config\<rparr>))"

text \<open>
  \<open>read_response\<close> is lines 149 to 157: what \<^verbatim>\<open>request\<close> does with the response,
  given the \<^verbatim>\<open>raw\<close> flag.
\<close>

definition read_response ::
  "(pyval \<Rightarrow> py_error + dotval) \<Rightarrow> bool \<Rightarrow> response
     \<Rightarrow> py_error + int \<times> (string \<rightharpoonup> string) \<times> resp_body" where
  "read_response other raw resp =
     (case (if \<not> (200 \<le> status_code resp \<and> status_code resp < 300)
            then handle_error_response resp else Inr ())
      of Inl err \<Rightarrow> Inl err
       | Inr u \<Rightarrow>
      (case (if (case resp_headers resp ''Content-Type'' of
                   None \<Rightarrow> False
                 | Some ct \<Rightarrow> py_substring ''json'' ct)
             then (case resp_json resp of
                     None \<Rightarrow> Inl JSONDecodeError
                   | Some j \<Rightarrow>
                       (case (if raw then DotMap other j else unwrap_envelope other j)
                        of Inl err \<Rightarrow> Inl err
                         | Inr d \<Rightarrow> Inr (Decoded d)))
             else Inr (Content (resp_content resp)))
       of Inl err \<Rightarrow> Inl err
        | Inr resp_body \<Rightarrow> Inr (status_code resp, resp_headers resp, resp_body)))"

text \<open>
  \<^verbatim>\<open>request\<close> returns the calls it made of \<^verbatim>\<open>requests.request\<close>, in order, next to
  its result: the tuple of status, headers and body, or the exception raised.
\<close>

definition request ::
  "'f env \<Rightarrow> configuration \<Rightarrow> string \<Rightarrow> string \<Rightarrow> pyval \<Rightarrow> pyval \<Rightarrow> kwargs
     \<Rightarrow> 'f http_request list \<times> (py_error + int \<times> (string \<rightharpoonup> string) \<times> resp_body)" where
  "request e config method url params body kw =
     (case request_args e config method url params body kw of
        Inl err \<Rightarrow> ([], Inl err)
      | Inr call \<Rightarrow>
          ([call],
           case http e call of
             Inl err \<Rightarrow> Inl err
           | Inr resp \<Rightarrow> read_response (dotmap_other e) (raw_option kw) resp))"

text \<open>The five verbs.\<close>

definition get where
  "get e config url params kw = request e config ''get'' url params PNone kw"

definition post where
  "post e config url body kw = request e config ''post'' url PNone body kw"

definition put where
  "put e config url body kw = request e config ''put'' url PNone body kw"

definition patch where
  "patch e config url body kw = request e config ''patch'' url PNone body kw"

definition delete where
  "delete e config url params kw = request e config ''delete'' url params PNone kw"

subsection \<open>The validation of the configuration\<close>

text \<open>
  A configuration object as it is before anything has checked it: the base URL and the
  API key may be missing, which is \<open>None\<close>.
\<close>

record client_options =
  opt_base_url :: "string option"
  opt_api_key :: "string option"
  opt_timeout :: pyval
  opt_verify_ssl :: bool

text \<open>
  \<^verbatim>\<open>request\<close> of \<^verbatim>\<open>http_client.py\<close> on such an object. Line 122 formats a missing
  base URL as the text \<^verbatim>\<open>None\<close>; line 126 concatenates the API key to a string and
  raises \<^verbatim>\<open>TypeError\<close> when the key is \<^verbatim>\<open>None\<close>, before anything else can fail.
\<close>

definition request_unvalidated ::
  "'f env \<Rightarrow> client_options \<Rightarrow> string \<Rightarrow> string \<Rightarrow> pyval \<Rightarrow> pyval \<Rightarrow> kwargs
     \<Rightarrow> 'f http_request list \<times> (py_error + int \<times> (string \<rightharpoonup> string) \<times> resp_body)" where
  "request_unvalidated e opts method url params body kw =
     (case opt_api_key opts of
        None \<Rightarrow> ([], Inl TypeError)
      | Some key \<Rightarrow>
          request e
            \<lparr>base_url = (case opt_base_url opts of None \<Rightarrow> ''None'' | Some u \<Rightarrow> u),
             api_key = key, timeout = opt_timeout opts, verify_ssl = opt_verify_ssl opts\<rparr>
            method url params body kw)"

text \<open>
  What makes an API key or a base URL invalid, and the message that describes the fault.
  Neither \<^verbatim>\<open>http_client.py\<close> and \<^verbatim>\<open>errors.py\<close> nor the specification say, so they
  are parameters.
\<close>

record validity =
  valid_api_key :: "string \<Rightarrow> bool"
  valid_base_url :: "string \<Rightarrow> bool"
  fault_message :: "client_options \<Rightarrow> string"

text \<open>
  Modelled from the spec: the validation of the configuration. The configuration class
  and the code that raises \<^verbatim>\<open>ConfigurationError\<close> are not part of \<^verbatim>\<open>http_client.py\<close>
  or \<^verbatim>\<open>errors.py\<close>, which only declares the exception, for ``invalid client
  configuration e.g. no access token provided, invalid access token, invalid base url''.
  The specification, section 6: ``Missing/invalid API key or base URL must surface as a
  distinct configuration-error condition before any network call is attempted''; and
  section 7: the error carries a descriptive message only.
\<close>

definition validate :: "validity \<Rightarrow> client_options \<Rightarrow> py_error + unit" where
  "validate rules opts =
     (if (case opt_api_key opts of None \<Rightarrow> True | Some key \<Rightarrow> \<not> valid_api_key rules key)
         \<or> (case opt_base_url opts of None \<Rightarrow> True | Some u \<Rightarrow> \<not> valid_base_url rules u)
      then Inl (ConfigurationError (fault_message rules opts))
      else Inr ())"

text \<open>
  Modelled from the spec: a request operation of a client. The client that owns the
  configuration is not part of \<^verbatim>\<open>http_client.py\<close> or \<^verbatim>\<open>errors.py\<close>; by the
  sentence of section 6 quoted above, the configuration is validated before the request
  of \<^verbatim>\<open>http_client.py\<close> runs.
\<close>

definition client_request ::
  "validity \<Rightarrow> 'f env \<Rightarrow> client_options \<Rightarrow> string \<Rightarrow> string \<Rightarrow> pyval \<Rightarrow> pyval \<Rightarrow> kwargs
     \<Rightarrow> 'f http_request list \<times> (py_error + int \<times> (string \<rightharpoonup> string) \<times> resp_body)" where
  "client_request rules e opts method url params body kw =
     (case validate rules opts of
        Inl err \<Rightarrow> ([], Inl err)
      | Inr u \<Rightarrow> request_unvalidated e opts method url params body kw)"

subsection \<open>An environment to run the client in\<close>

text \<open>
  \<^verbatim>\<open>json.dumps\<close> with its default settings, on \<open>pyval\<close>: items separated by a comma
  and a space, keys from values by a colon and a space, and every character outside the
  printable ASCII range escaped. A character is taken as a code point below 256.
\<close>

definition hex_digit :: "nat \<Rightarrow> char" where
  "hex_digit d = ''0123456789abcdef'' ! d"

definition escape_char :: "char \<Rightarrow> string" where
  "escape_char c =
     (let n = (of_char c :: nat) in
      if c = CHR 0x22 then [CHR 0x5C, CHR 0x22]
      else if c = CHR 0x5C then [CHR 0x5C, CHR 0x5C]
      else if c = CHR 0x0A then [CHR 0x5C, CHR ''n'']
      else if c = CHR 0x0D then [CHR 0x5C, CHR ''r'']
      else if c = CHR 0x09 then [CHR 0x5C, CHR ''t'']
      else if c = CHR 0x0C then [CHR 0x5C, CHR ''f'']
      else if c = CHR 0x08 then [CHR 0x5C, CHR ''b'']
      else if 32 \<le> n \<and> n < 127 then [c]
      else [CHR 0x5C, CHR ''u'', CHR ''0'', CHR ''0'', hex_digit (n div 16), hex_digit (n mod 16)])"

definition dumps_str :: "string \<Rightarrow> string" where
  "dumps_str s = [CHR 0x22] @ concat (map escape_char s) @ [CHR 0x22]"

fun join :: "string \<Rightarrow> string list \<Rightarrow> string" where
  "join sep [] = []"
| "join sep [x] = x"
| "join sep (x # y # ys) = x @ sep @ join sep (y # ys)"

fun dumps :: "pyval \<Rightarrow> string" where
  "dumps PNone = ''null''"
| "dumps (PBool b) = (if b then ''true'' else ''false'')"
| "dumps (PInt n) = str_int n"
| "dumps (PStr s) = dumps_str s"
| "dumps (PList xs) = ''['' @ join '', '' (map dumps xs) @ '']''"
| "dumps (PDict kvs) =
     ''{'' @ join '', '' (map (\<lambda>(k, v). dumps_str k @ '': '' @ dumps v) kvs) @ ''}''"

text \<open>
  \<^verbatim>\<open>float\<close> on a timeout, with a float named by the integer of the same value. An
  integer below \<open>2^53\<close> in magnitude converts exactly; a larger one is rounded to the
  nearest float, to the even one of two at equal distance, and raises
  \<^verbatim>\<open>OverflowError\<close> when that is beyond the largest float. \<^verbatim>\<open>True\<close> and
  \<^verbatim>\<open>False\<close> are the integers 1 and 0. \<^verbatim>\<open>None\<close>, lists and dictionaries raise
  \<^verbatim>\<open>TypeError\<close>. A string raises \<^verbatim>\<open>ValueError\<close>, as \<^verbatim>\<open>float\<close> does on a string
  that is no number; strings that are numbers are not covered.
\<close>

function bitlen :: "int \<Rightarrow> nat" where
  "bitlen n = (if n \<le> 0 then 0 else Suc (bitlen (n div 2)))"
  by pat_completeness auto
termination
  by (relation "measure nat") auto

declare bitlen.simps [simp del]

definition nearest_float :: "int \<Rightarrow> int" where
  "nearest_float n =
     (if n < 2 ^ 53 then n
      else (let s = bitlen n - 53; q = n div 2 ^ s; r = n mod 2 ^ s
            in (if 2 ^ s < 2 * r \<or> (2 * r = 2 ^ s \<and> odd q) then q + 1 else q) * 2 ^ s))"

definition float_timeout :: "pyval \<Rightarrow> py_error + int" where
  "float_timeout v =
     (case v of
        PInt n \<Rightarrow>
          (if \<bar>n\<bar> < 2 ^ 53 then Inr n
           else if nearest_float \<bar>n\<bar> < 2 ^ 1024 then Inr (sgn n * nearest_float \<bar>n\<bar>)
           else Inl OverflowError)
      | PBool b \<Rightarrow> Inr (if b then 1 else 0)
      | PStr s \<Rightarrow> Inl ValueError
      | _ \<Rightarrow> Inl TypeError)"

text \<open>
  The constructor of \<^verbatim>\<open>DotMap\<close>, release 1.3.30 of the package, on an argument that is
  no mapping. An argument that cannot be iterated over (\<^verbatim>\<open>None\<close>, a boolean, a number)
  leaves the \<^verbatim>\<open>DotMap\<close> empty. A list or a string is iterated over, and every element is
  unpacked into a key and a value, \<^verbatim>\<open>for k, v in d\<close>: an element that cannot be iterated
  over raises \<^verbatim>\<open>TypeError\<close>, one that does not have two items raises
  \<^verbatim>\<open>ValueError\<close>, so every string but the empty one does. The value is stored under the
  key as for a dictionary; a key that is a list or a dictionary cannot be hashed and
  raises \<^verbatim>\<open>TypeError\<close>. Keys that are numbers, booleans or \<^verbatim>\<open>None\<close> are not covered:
  \<open>DotMapV\<close> has string keys only, and this definition raises \<^verbatim>\<open>TypeError\<close> there.
\<close>

fun unpack_pair :: "pyval \<Rightarrow> py_error + pyval \<times> pyval" where
  "unpack_pair (PList [k, v]) = Inr (k, v)"
| "unpack_pair (PList xs) = Inl ValueError"
| "unpack_pair (PStr [c, d]) = Inr (PStr [c], PStr [d])"
| "unpack_pair (PStr s) = Inl ValueError"
| "unpack_pair (PDict [(k, a), (l, b)]) = Inr (PStr k, PStr l)"
| "unpack_pair (PDict kvs) = Inl ValueError"
| "unpack_pair v = Inl TypeError"

text \<open>\<^verbatim>\<open>m[k] = v\<close> on a dictionary that keeps its keys in insertion order.\<close>

fun assign :: "(string \<times> 'v) list \<Rightarrow> string \<Rightarrow> 'v \<Rightarrow> (string \<times> 'v) list" where
  "assign [] k v = [(k, v)]"
| "assign ((k', v') # m) k v = (if k' = k then (k, v) # m else (k', v') # assign m k v)"

fun dotmap_pairs :: "(string \<times> dotval) list \<Rightarrow> pyval list \<Rightarrow> py_error + dotval" where
  "dotmap_pairs m [] = Inr (DotMapV m)"
| "dotmap_pairs m (x # xs) =
     (case unpack_pair x of
        Inl err \<Rightarrow> Inl err
      | Inr (k, v) \<Rightarrow>
          (case k of
             PStr s \<Rightarrow> dotmap_pairs (assign m s (dotmap_value v)) xs
           | _ \<Rightarrow> Inl TypeError))"

fun dotmap_non_mapping :: "pyval \<Rightarrow> py_error + dotval" where
  "dotmap_non_mapping (PList xs) = dotmap_pairs [] xs"
| "dotmap_non_mapping (PStr s) = (if s = [] then Inr (DotMapV []) else Inl ValueError)"
| "dotmap_non_mapping v = Inr (DotMapV [])"

text \<open>A server that answers every call with \<open>resp\<close>.\<close>

definition serve :: "response \<Rightarrow> int env" where
  "serve resp =
     \<lparr>json_dumps = dumps, py_float = float_timeout, http = (\<lambda>call. Inr resp),
      dotmap_other = dotmap_non_mapping\<rparr>"

definition example_config :: configuration where
  "example_config =
     \<lparr>base_url = ''https://api.example.com'', api_key = ''secret'', timeout = PInt 10,
      verify_ssl = True\<rparr>"

definition json_response :: "int \<Rightarrow> string \<Rightarrow> pyval \<Rightarrow> response" where
  "json_response code txt j =
     \<lparr>status_code = code, resp_headers = [''Content-Type'' \<mapsto> ''application/json''],
      resp_text = txt, resp_content = txt, resp_json = Some j\<rparr>"

definition text_response :: "int \<Rightarrow> string \<Rightarrow> response" where
  "text_response code txt =
     \<lparr>status_code = code, resp_headers = [''Content-Type'' \<mapsto> ''text/plain''],
      resp_text = txt, resp_content = txt, resp_json = None\<rparr>"

text \<open>
  Rules for the examples: a key or a URL is valid when it is not empty.
\<close>

definition example_rules :: validity where
  "example_rules =
     \<lparr>valid_api_key = (\<lambda>key. key \<noteq> []), valid_base_url = (\<lambda>u. u \<noteq> []),
      fault_message = (\<lambda>opts. if opt_api_key opts = None then ''No API key provided''
                                else ''Invalid configuration'')\<rparr>"

definition example_options :: client_options where
  "example_options =
     \<lparr>opt_base_url = Some ''https://api.example.com'', opt_api_key = Some ''secret'',
      opt_timeout = PInt 10, opt_verify_ssl = True\<rparr>"

section \<open>Properties\<close>

text \<open>The definitions that running the client on a concrete input unfolds.\<close>

lemmas run =
  request_def request_args_def read_response_def handle_error_response_def
  BaseError_init_def unwrap_envelope_def DotMap_def wrap_envelope_def user_headers_def
  raw_option_def API_VERSION_def Let_def serve_def example_config_def json_response_def
  text_response_def no_kwargs_def float_timeout_def str_int_def str_nat.simps digit_char_def

subsection \<open>DotMap and the envelope of a response\<close>

lemma toDict_dotmap_value: "toDict (dotmap_value v) = v"
proof (induction v rule: dotmap_value.induct)
  case (1 kvs)
  have "map ((\<lambda>(k, v). (k, toDict v)) \<circ> (\<lambda>(k, v). (k, dotmap_value v))) kvs = map id kvs"
    by (rule map_cong) (auto simp: "1.IH")
  then show ?case by simp
next
  case (2 xs)
  have "map (toDict \<circ> (\<lambda>i. case i of PDict kvs \<Rightarrow> dotmap_value i | _ \<Rightarrow> Plain i)) xs = map id xs"
  proof (rule map_cong)
    fix i assume i: "i \<in> set xs"
    show "(toDict \<circ> (\<lambda>i. case i of PDict kvs \<Rightarrow> dotmap_value i | _ \<Rightarrow> Plain i)) i = id i"
    proof (cases i)
      case (PDict m)
      with i "2.IH" [of i m] show ?thesis by simp
    qed simp_all
  qed simp
  then show ?case by simp
qed simp_all

lemma keys_dotmap_value: "keys (dotmap_value (PDict kvs)) = map fst kvs"
  by (simp add: comp_def case_prod_unfold)

lemma keys_dotmap_value_dict: "is_dict v \<Longrightarrow> keys (dotmap_value v) = py_keys v"
  by (cases v) (simp_all add: comp_def case_prod_unfold)

lemma is_DotMap_dotmap_value: "is_dict v \<Longrightarrow> is_DotMap (dotmap_value v)"
  by (cases v) simp_all

lemma DotMap_dict: "DotMap other (PDict kvs) = Inr (dotmap_value (PDict kvs))"
  by (simp add: DotMap_def)

lemma comprehension_DotMap_dicts:
  "\<forall>x\<in>set xs. is_dict x \<Longrightarrow> comprehension (DotMap other) xs = Inr (map dotmap_value xs)"
proof (induction xs)
  case Nil
  show ?case by simp
next
  case (Cons x xs)
  then obtain m where "x = PDict m" by (cases x) simp_all
  with Cons show ?case by (simp add: DotMap_def)
qed

lemma unwrap_envelope_list:
  assumes "map_of kvs ''items'' = Some (PList xs)" and "\<forall>x\<in>set xs. is_dict x"
  shows "unwrap_envelope other (PDict kvs) = Inr (ListV (map dotmap_value xs))"
  using assms by (simp add: unwrap_envelope_def comprehension_DotMap_dicts)

lemma unwrap_envelope_single:
  assumes "map_of kvs ''items'' = None"
  shows "unwrap_envelope other (PDict kvs) = Inr (dotmap_value (PDict kvs))"
  using assms by (simp add: unwrap_envelope_def DotMap_def)

text \<open>
  A successful JSON response whose body is \<^verbatim>\<open>null\<close>: the decoded body has no
  \<^verbatim>\<open>items\<close> key, and the membership test of \<^verbatim>\<open>unwrap_envelope\<close> raises
  \<^verbatim>\<open>TypeError\<close>.
\<close>

theorem unwrap_envelope_counterexample:
  "resp_json (json_response 200 ''null'' PNone) = Some PNone
   \<and> py_contains ''items'' PNone \<noteq> Inr True
   \<and> snd (request (serve (json_response 200 ''null'' PNone)) example_config ''get''
           ''/components'' PNone PNone no_kwargs) = Inl TypeError"
  by (simp add: run)

text \<open>
  C1 (amended). When the decoded body is an object whose \<^verbatim>\<open>items\<close> key holds a list
  of \<open>N\<close> objects, unwrapping gives a list of \<open>N\<close> \<^verbatim>\<open>DotMap\<close>s, the \<open>i\<close>-th with
  the keys and the content of the \<open>i\<close>-th element. When the decoded body is an object
  without an \<^verbatim>\<open>items\<close> key, unwrapping gives one \<^verbatim>\<open>DotMap\<close> with the keys and the
  content of the body.
\<close>

theorem unwrap_envelope_spec:
  "(map_of kvs ''items'' = Some (PList xs) \<and> (\<forall>x\<in>set xs. is_dict x) \<longrightarrow>
      (\<exists>ys. unwrap_envelope other (PDict kvs) = Inr (ListV ys) \<and> length ys = length xs \<and>
         (\<forall>i<length xs. is_DotMap (ys ! i) \<and> keys (ys ! i) = py_keys (xs ! i)
                          \<and> toDict (ys ! i) = xs ! i)))
   \<and> (map_of kvs ''items'' = None \<longrightarrow>
      (\<exists>d. unwrap_envelope other (PDict kvs) = Inr d \<and> is_DotMap d \<and> keys d = map fst kvs
           \<and> toDict d = PDict kvs))"
proof (intro conjI impI)
  assume h: "map_of kvs ''items'' = Some (PList xs) \<and> (\<forall>x\<in>set xs. is_dict x)"
  then have u: "unwrap_envelope other (PDict kvs) = Inr (ListV (map dotmap_value xs))"
    by (simp add: unwrap_envelope_list)
  have "\<forall>i<length xs. is_DotMap (map dotmap_value xs ! i)
          \<and> keys (map dotmap_value xs ! i) = py_keys (xs ! i)
          \<and> toDict (map dotmap_value xs ! i) = xs ! i"
    using h by (simp add: is_DotMap_dotmap_value keys_dotmap_value_dict toDict_dotmap_value)
  with u show "\<exists>ys. unwrap_envelope other (PDict kvs) = Inr (ListV ys) \<and> length ys = length xs \<and>
         (\<forall>i<length xs. is_DotMap (ys ! i) \<and> keys (ys ! i) = py_keys (xs ! i)
                          \<and> toDict (ys ! i) = xs ! i)"
    by simp
next
  assume h: "map_of kvs ''items'' = None"
  then have u: "unwrap_envelope other (PDict kvs) = Inr (dotmap_value (PDict kvs))"
    by (rule unwrap_envelope_single)
  have "is_DotMap (dotmap_value (PDict kvs))" by simp
  moreover have "keys (dotmap_value (PDict kvs)) = map fst kvs" by (rule keys_dotmap_value)
  moreover have "toDict (dotmap_value (PDict kvs)) = PDict kvs" by (rule toDict_dotmap_value)
  ultimately show "\<exists>d. unwrap_envelope other (PDict kvs) = Inr d \<and> is_DotMap d \<and> keys d = map fst kvs
           \<and> toDict d = PDict kvs"
    using u by simp
qed

theorem unwrap_envelope_spec_witness:
  "unwrap_envelope (\<lambda>v. Inl TypeError)
     (PDict [(''items'', PList [PDict [(''id'', PInt 1)], PDict [(''id'', PInt 2), (''name'', PStr ''api'')]])])
   = Inr (ListV [DotMapV [(''id'', Plain (PInt 1))],
                 DotMapV [(''id'', Plain (PInt 2)), (''name'', Plain (PStr ''api''))]])
   \<and> (\<exists>d. unwrap_envelope (\<lambda>v. Inl TypeError) (PDict [(''id'', PInt 1)]) = Inr d
          \<and> keys d = [''id''] \<and> toDict d = PDict [(''id'', PInt 1)])"
proof -
  let ?xs = "[PDict [(''id'', PInt 1)], PDict [(''id'', PInt 2), (''name'', PStr ''api'')]]"
  have h1: "map_of [(''items'', PList ?xs)] ''items'' = Some (PList ?xs) \<and> (\<forall>x\<in>set ?xs. is_dict x)"
    by simp
  have h2: "map_of [(''id'', PInt 1)] ''items'' = None"
    by simp
  from unwrap_envelope_spec [of "[(''items'', PList ?xs)]" ?xs "\<lambda>v. Inl TypeError"] h1
  obtain ys where ys: "unwrap_envelope (\<lambda>v. Inl TypeError) (PDict [(''items'', PList ?xs)]) = Inr (ListV ys)"
    by blast
  have e: "unwrap_envelope (\<lambda>v. Inl TypeError) (PDict [(''items'', PList ?xs)])
     = Inr (ListV [DotMapV [(''id'', Plain (PInt 1))],
                 DotMapV [(''id'', Plain (PInt 2)), (''name'', Plain (PStr ''api''))]])"
    by (simp add: unwrap_envelope_def DotMap_def)
  from unwrap_envelope_spec [of "[(''id'', PInt 1)]" "[]" "\<lambda>v. Inl TypeError"] h2
  have "\<exists>d. unwrap_envelope (\<lambda>v. Inl TypeError) (PDict [(''id'', PInt 1)]) = Inr d
          \<and> keys d = [''id''] \<and> toDict d = PDict [(''id'', PInt 1)]"
    by auto
  with e show ?thesis by simp
qed

subsection \<open>The parts of request\<close>

lemma request_args_eq:
  "request_args e config method url params body kw =
     (if body \<noteq> PNone \<and> \<not> raw_option kw \<and> kw_container kw = None
      then Inl (KeyError ''container'')
      else case py_float e (timeout config) of
        Inl err \<Rightarrow> Inl err
      | Inr t \<Rightarrow> Inr
         \<lparr>req_method = method, req_url = base_url config @ ''/v1'' @ url,
           req_params = params,
           req_data = (if body = PNone then None
                       else Some (json_dumps e (if raw_option kw then body
                                  else wrap_envelope (the (kw_container kw)) body))),
           req_headers =
             (if body = PNone then
                [''Content-Type'' \<mapsto> PStr ''application/x-www-form-urlencoded'',
                 ''Authorization'' \<mapsto> PStr (''OAuth '' @ api_key config)] ++ user_headers kw
              else
                ([''Content-Type'' \<mapsto> PStr ''application/x-www-form-urlencoded'',
                 ''Authorization'' \<mapsto> PStr (''OAuth '' @ api_key config)] ++ user_headers kw)
                 (''Content-Type'' \<mapsto> PStr ''application/json'')),
           req_timeout = t, req_verify = verify_ssl config\<rparr>)"
  by (cases "py_float e (timeout config)"; cases "kw_container kw";
      cases "body = PNone"; cases "raw_option kw")
     (simp_all add: request_args_def API_VERSION_def Let_def)

lemma handle_error_response_raises: "\<exists>err. handle_error_response resp = Inl err"
  by (simp add: handle_error_response_def Let_def split: option.split)

lemma request_args_missing_container:
  "body \<noteq> PNone \<Longrightarrow> \<not> raw_option kw \<Longrightarrow> kw_container kw = None \<Longrightarrow>
   request_args e config method url params body kw = Inl (KeyError ''container'')"
  by (simp add: request_args_eq)

lemma request_args_succeeds:
  "body = PNone \<or> raw_option kw \<or> kw_container kw \<noteq> None \<Longrightarrow>
   py_float e (timeout config) = Inr t \<Longrightarrow>
   \<exists>call. request_args e config method url params body kw = Inr call"
  by (simp add: request_args_eq)

lemma request_args_url:
  "request_args e config method url params body kw = Inr call \<Longrightarrow>
   req_url call = base_url config @ ''/v1'' @ url"
  by (cases "py_float e (timeout config)";
      cases "body \<noteq> PNone \<and> \<not> raw_option kw \<and> kw_container kw = None")
     (auto simp add: request_args_eq)

lemma request_args_data:
  "request_args e config method url params body kw = Inr call \<Longrightarrow>
   req_data call =
     (if body = PNone then None
      else if raw_option kw then Some (json_dumps e body)
      else Some (json_dumps e (wrap_envelope (the (kw_container kw)) body)))"
  by (cases "py_float e (timeout config)";
      cases "body \<noteq> PNone \<and> \<not> raw_option kw \<and> kw_container kw = None")
     (auto simp add: request_args_eq)

lemma default_headers_lookup:
  "[''Content-Type'' \<mapsto> PStr ''application/x-www-form-urlencoded'',
    ''Authorization'' \<mapsto> PStr (''OAuth '' @ key)] k =
     (if k = ''Content-Type'' then Some (PStr ''application/x-www-form-urlencoded'')
      else if k = ''Authorization'' then Some (PStr (''OAuth '' @ key))
      else None)"
  by simp

lemma map_add_lookup:
  "(m ++ n) k = (case n k of Some v \<Rightarrow> Some v | None \<Rightarrow> m k)"
  by (simp add: map_add_def)

lemma request_args_call:
  assumes "request_args e config method url params body kw = Inr call"
  shows "req_headers call =
             (if body = PNone then
                [''Content-Type'' \<mapsto> PStr ''application/x-www-form-urlencoded'',
                 ''Authorization'' \<mapsto> PStr (''OAuth '' @ api_key config)] ++ user_headers kw
              else
                ([''Content-Type'' \<mapsto> PStr ''application/x-www-form-urlencoded'',
                 ''Authorization'' \<mapsto> PStr (''OAuth '' @ api_key config)] ++ user_headers kw)
                 (''Content-Type'' \<mapsto> PStr ''application/json''))"
  using assms
  by (cases "py_float e (timeout config)";
      cases "body \<noteq> PNone \<and> \<not> raw_option kw \<and> kw_container kw = None")
     (auto simp add: request_args_eq)

lemma request_args_headers:
  assumes "request_args e config method url params body kw = Inr call"
  shows "req_headers call k =
     (if body \<noteq> PNone \<and> k = ''Content-Type'' then Some (PStr ''application/json'')
      else case user_headers kw k of
             Some v \<Rightarrow> Some v
           | None \<Rightarrow>
               (if k = ''Content-Type'' then Some (PStr ''application/x-www-form-urlencoded'')
                else if k = ''Authorization'' then Some (PStr (''OAuth '' @ api_key config))
                else None))"
proof (cases "body = PNone")
  case True
  with request_args_call [OF assms] have "req_headers call =
     [''Content-Type'' \<mapsto> PStr ''application/x-www-form-urlencoded'',
      ''Authorization'' \<mapsto> PStr (''OAuth '' @ api_key config)] ++ user_headers kw"
    by simp
  then have "req_headers call k = (case user_headers kw k of Some v \<Rightarrow> Some v | None \<Rightarrow>
     [''Content-Type'' \<mapsto> PStr ''application/x-www-form-urlencoded'',
      ''Authorization'' \<mapsto> PStr (''OAuth '' @ api_key config)] k)"
    by (simp only: map_add_lookup)
  with True show ?thesis
    by (simp only: default_headers_lookup) simp
next
  case False
  with request_args_call [OF assms] have h: "req_headers call =
     ([''Content-Type'' \<mapsto> PStr ''application/x-www-form-urlencoded'',
      ''Authorization'' \<mapsto> PStr (''OAuth '' @ api_key config)] ++ user_headers kw)
      (''Content-Type'' \<mapsto> PStr ''application/json'')"
    by simp
  show ?thesis
  proof (cases "k = ''Content-Type''")
    case True
    with h False show ?thesis by simp
  next
    case ne: False
    from h ne have "req_headers call k =
      ([''Content-Type'' \<mapsto> PStr ''application/x-www-form-urlencoded'',
      ''Authorization'' \<mapsto> PStr (''OAuth '' @ api_key config)] ++ user_headers kw) k"
      by (simp only: fun_upd_apply if_False)
    then have "req_headers call k = (case user_headers kw k of Some v \<Rightarrow> Some v | None \<Rightarrow>
     [''Content-Type'' \<mapsto> PStr ''application/x-www-form-urlencoded'',
      ''Authorization'' \<mapsto> PStr (''OAuth '' @ api_key config)] k)"
      by (simp only: map_add_lookup)
    with ne show ?thesis
      by (simp only: default_headers_lookup) simp
  qed
qed

lemma request_calls:
  "call \<in> set (fst (request e config method url params body kw))
     \<longleftrightarrow> request_args e config method url params body kw = Inr call"
  by (cases "request_args e config method url params body kw") (auto simp: request_def)

lemma request_one_call:
  "request_args e config method url params body kw = Inr call \<Longrightarrow>
   fst (request e config method url params body kw) = [call]"
  by (simp add: request_def)

lemma request_no_call:
  "request_args e config method url params body kw = Inl err \<Longrightarrow>
   request e config method url params body kw = ([], Inl err)"
  by (simp add: request_def)

lemma request_response:
  "call \<in> set (fst (request e config method url params body kw)) \<Longrightarrow>
   http e call = Inr resp \<Longrightarrow>
   snd (request e config method url params body kw)
     = read_response (dotmap_other e) (raw_option kw) resp"
  by (cases "request_args e config method url params body kw") (auto simp: request_def)

lemma read_response_error:
  "\<not> (200 \<le> status_code resp \<and> status_code resp < 300) \<Longrightarrow>
   handle_error_response resp = Inl err \<Longrightarrow> read_response other raw resp = Inl err"
  by (simp add: read_response_def)

lemma read_response_json:
  "200 \<le> status_code resp \<Longrightarrow> status_code resp < 300 \<Longrightarrow>
   resp_headers resp ''Content-Type'' = Some ct \<Longrightarrow> py_substring ''json'' ct \<Longrightarrow>
   resp_json resp = Some j \<Longrightarrow>
   read_response other raw resp =
     (case (if raw then DotMap other j else unwrap_envelope other j) of
        Inl err \<Rightarrow> Inl err
      | Inr d \<Rightarrow> Inr (status_code resp, resp_headers resp, Decoded d))"
  by (cases "if raw then DotMap other j else unwrap_envelope other j")
     (simp_all add: read_response_def)

lemma request_error:
  "call \<in> set (fst (request e config method url params body kw)) \<Longrightarrow>
   http e call = Inr resp \<Longrightarrow>
   \<not> (200 \<le> status_code resp \<and> status_code resp < 300) \<Longrightarrow>
   handle_error_response resp = Inl err \<Longrightarrow>
   snd (request e config method url params body kw) = Inl err"
  by (simp add: request_response read_response_error)

lemma request_unwraps:
  assumes "\<not> raw_option kw"
    and "call \<in> set (fst (request e config method url params body kw))"
    and "http e call = Inr resp"
    and "200 \<le> status_code resp" and "status_code resp < 300"
    and "resp_headers resp ''Content-Type'' = Some ct" and "py_substring ''json'' ct"
    and "resp_json resp = Some j"
  shows "snd (request e config method url params body kw) =
           (case unwrap_envelope (dotmap_other e) j of
              Inl err \<Rightarrow> Inl err
            | Inr d \<Rightarrow> Inr (status_code resp, resp_headers resp, Decoded d))"
proof -
  from read_response_json [OF assms(4-8), of "dotmap_other e" "raw_option kw"] assms(1)
  have "read_response (dotmap_other e) (raw_option kw) resp =
           (case unwrap_envelope (dotmap_other e) j of
              Inl err \<Rightarrow> Inl err
            | Inr d \<Rightarrow> Inr (status_code resp, resp_headers resp, Decoded d))"
    by simp
  with request_response [OF assms(2,3)] show ?thesis
    by simp
qed

subsection \<open>The call that is issued\<close>

text \<open>
  C8. Every call that \<^verbatim>\<open>request\<close> issues goes to the base URL, followed by
  \<^verbatim>\<open>/v1\<close>, followed by the path; and a call is issued whenever the body and the
  options let the body be built and the timeout converts.
\<close>

theorem request_url:
  "(\<forall>call\<in>set (fst (request e config method url params body kw)).
      req_url call = base_url config @ ''/v1'' @ url)
   \<and> ((body = PNone \<or> raw_option kw \<or> kw_container kw \<noteq> None)
        \<and> py_float e (timeout config) = Inr t \<longrightarrow>
      length (fst (request e config method url params body kw)) = 1)"
proof (intro conjI ballI impI)
  fix call
  assume "call \<in> set (fst (request e config method url params body kw))"
  then have "request_args e config method url params body kw = Inr call"
    by (simp only: request_calls)
  then show "req_url call = base_url config @ ''/v1'' @ url"
    by (rule request_args_url)
next
  assume h: "(body = PNone \<or> raw_option kw \<or> kw_container kw \<noteq> None)
        \<and> py_float e (timeout config) = Inr t"
  from h have a: "body = PNone \<or> raw_option kw \<or> kw_container kw \<noteq> None" ..
  from h have b: "py_float e (timeout config) = Inr t" ..
  from request_args_succeeds [OF a b, of "method" url params]
  obtain call where c: "request_args e config method url params body kw = Inr call" ..
  from request_one_call [OF c]
  show "length (fst (request e config method url params body kw)) = 1"
    by simp
qed

theorem request_url_witness:
  "py_float (serve (text_response 200 ''ok'')) (timeout example_config) = Inr 10
   \<and> base_url example_config = ''https://api.example.com''
   \<and> map req_url (fst (request (serve (text_response 200 ''ok'')) example_config ''get''
            ''/components'' PNone PNone no_kwargs))
       = [''https://api.example.com/v1/components'']"
  using request_url [of "serve (text_response 200 ''ok'')" example_config "''get''"
      "''/components''" PNone PNone no_kwargs 10]
  by (simp add: run)

text \<open>
  C9. The headers of every call: \<^verbatim>\<open>Content-Type\<close> is \<^verbatim>\<open>application/json\<close> when a
  body is supplied; otherwise a header of the caller wins; otherwise the defaults hold,
  \<^verbatim>\<open>application/x-www-form-urlencoded\<close> and \<^verbatim>\<open>OAuth\<close> followed by the API key.
\<close>

theorem request_headers:
  "\<forall>call\<in>set (fst (request e config method url params body kw)). \<forall>k.
     req_headers call k =
       (if body \<noteq> PNone \<and> k = ''Content-Type'' then Some (PStr ''application/json'')
        else case user_headers kw k of
               Some v \<Rightarrow> Some v
             | None \<Rightarrow>
                 (if k = ''Content-Type'' then Some (PStr ''application/x-www-form-urlencoded'')
                  else if k = ''Authorization'' then Some (PStr (''OAuth '' @ api_key config))
                  else None))"
proof (intro ballI allI)
  fix call k
  assume "call \<in> set (fst (request e config method url params body kw))"
  then have "request_args e config method url params body kw = Inr call"
    by (simp only: request_calls)
  then show "req_headers call k =
       (if body \<noteq> PNone \<and> k = ''Content-Type'' then Some (PStr ''application/json'')
        else case user_headers kw k of
               Some v \<Rightarrow> Some v
             | None \<Rightarrow>
                 (if k = ''Content-Type'' then Some (PStr ''application/x-www-form-urlencoded'')
                  else if k = ''Authorization'' then Some (PStr (''OAuth '' @ api_key config))
                  else None))"
    by (rule request_args_headers)
qed

theorem request_headers_witness:
  "map (\<lambda>call. (req_headers call ''Content-Type'', req_headers call ''Authorization'',
                req_headers call ''Accept'', req_headers call ''Cookie''))
     (fst (request (serve (text_response 200 ''ok'')) example_config ''get'' ''/components''
             PNone PNone
             (no_kwargs\<lparr>kw_headers := Some (PDict [(''Content-Type'', PStr ''text/csv''),
                                                    (''Accept'', PStr ''text/csv'')])\<rparr>)))
     = [(Some (PStr ''text/csv''), Some (PStr ''OAuth secret''), Some (PStr ''text/csv''), None)]
   \<and> map (\<lambda>call. (req_headers call ''Content-Type'', req_headers call ''Authorization''))
     (fst (request (serve (text_response 200 ''ok'')) example_config ''post'' ''/components''
             PNone (PDict [(''name'', PStr ''x'')])
             (no_kwargs\<lparr>kw_headers := Some (PDict [(''Content-Type'', PStr ''text/csv''),
                                                    (''Authorization'', PStr ''Bearer t'')]),
                         kw_container := Some ''component''\<rparr>)))
     = [(Some (PStr ''application/json''), Some (PStr ''Bearer t''))]"
  using request_headers [of "serve (text_response 200 ''ok'')" example_config "''get''"
      "''/components''" PNone PNone
      "no_kwargs\<lparr>kw_headers := Some (PDict [(''Content-Type'', PStr ''text/csv''),
                                              (''Accept'', PStr ''text/csv'')])\<rparr>"]
    request_headers [of "serve (text_response 200 ''ok'')" example_config "''post''"
      "''/components''" PNone "PDict [(''name'', PStr ''x'')]"
      "no_kwargs\<lparr>kw_headers := Some (PDict [(''Content-Type'', PStr ''text/csv''),
                                              (''Authorization'', PStr ''Bearer t'')]),
                   kw_container := Some ''component''\<rparr>"]
  by (simp add: run)

text \<open>
  C10. With a body, without \<^verbatim>\<open>raw\<close> and without a \<^verbatim>\<open>container\<close> option,
  \<^verbatim>\<open>request\<close> raises \<^verbatim>\<open>KeyError\<close> and has issued no call.
\<close>

theorem missing_container:
  assumes "body \<noteq> PNone" and "\<not> raw_option kw" and "kw_container kw = None"
  shows "request e config method url params body kw = ([], Inl (KeyError ''container''))"
proof -
  from assms have "request_args e config method url params body kw = Inl (KeyError ''container'')"
    by (rule request_args_missing_container)
  then show ?thesis
    by (rule request_no_call)
qed

theorem missing_container_witness:
  "PDict [(''name'', PStr ''x'')] \<noteq> PNone \<and> \<not> raw_option no_kwargs
   \<and> kw_container no_kwargs = None
   \<and> request (serve (text_response 200 ''ok'')) example_config ''post'' ''/components'' PNone
        (PDict [(''name'', PStr ''x'')]) no_kwargs = ([], Inl (KeyError ''container''))"
  using missing_container [of "PDict [(''name'', PStr ''x'')]" no_kwargs
      "serve (text_response 200 ''ok'')" example_config "''post''" "''/components''" PNone]
  by (simp add: raw_option_def no_kwargs_def)

text \<open>
  C7. With a body, without \<^verbatim>\<open>raw\<close> and with container \<open>C\<close>, the wrapped body is the
  dictionary with the one key \<open>C\<close>, and the data of the call is its JSON text.
\<close>

theorem wrapped_body_sent:
  assumes "body \<noteq> PNone" and "\<not> raw_option kw" and "kw_container kw = Some container"
    and "py_float e (timeout config) = Inr t"
  shows "wrap_envelope container body = PDict [(container, body)]
     \<and> map req_data (fst (request e config method url params body kw))
         = [Some (json_dumps e (PDict [(container, body)]))]"
proof -
  have a: "body = PNone \<or> raw_option kw \<or> kw_container kw \<noteq> None"
    using assms(3) by simp
  from request_args_succeeds [OF a assms(4), of "method" url params]
  obtain call where c: "request_args e config method url params body kw = Inr call" ..
  from request_args_data [OF c] assms
  have "req_data call = Some (json_dumps e (PDict [(container, body)]))"
    by (simp add: wrap_envelope_def)
  with request_one_call [OF c] show ?thesis
    by (simp add: wrap_envelope_def)
qed

theorem wrapped_body_sent_witness:
  "PDict [(''name'', PStr ''x'')] \<noteq> PNone
   \<and> \<not> raw_option (no_kwargs\<lparr>kw_container := Some ''component''\<rparr>)
   \<and> wrap_envelope ''component'' (PDict [(''name'', PStr ''x'')])
       = PDict [(''component'', PDict [(''name'', PStr ''x'')])]
   \<and> map req_data (fst (request (serve (text_response 200 ''ok'')) example_config ''post''
         ''/components'' PNone (PDict [(''name'', PStr ''x'')])
         (no_kwargs\<lparr>kw_container := Some ''component''\<rparr>)))
       = [Some (''{'' @ [CHR 0x22] @ ''component'' @ [CHR 0x22] @ '': {'' @ [CHR 0x22] @ ''name''
                @ [CHR 0x22] @ '': '' @ [CHR 0x22] @ ''x'' @ [CHR 0x22] @ ''}}'')]"
  using wrapped_body_sent [of "PDict [(''name'', PStr ''x'')]"
      "no_kwargs\<lparr>kw_container := Some ''component''\<rparr>" "''component''"
      "serve (text_response 200 ''ok'')" example_config 10 "''post''" "''/components''" PNone]
  by (simp add: run dumps_str_def escape_char_def)

text \<open>
  A raw request whose successful JSON response is the array \<^verbatim>\<open>[1, 2]\<close>: the
  \<^verbatim>\<open>DotMap\<close> constructor unpacks the element 1 into a key and a value and raises
  \<^verbatim>\<open>TypeError\<close>, so the decoded array is not returned.
\<close>

theorem raw_request_counterexample:
  "raw_option (no_kwargs\<lparr>kw_raw := Some (PBool True)\<rparr>)
   \<and> resp_json (json_response 200 ''[1, 2]'' (PList [PInt 1, PInt 2]))
       = Some (PList [PInt 1, PInt 2])
   \<and> snd (request (serve (json_response 200 ''[1, 2]'' (PList [PInt 1, PInt 2])))
        example_config ''get'' ''/components'' PNone PNone
        (no_kwargs\<lparr>kw_raw := Some (PBool True)\<rparr>)) = Inl TypeError"
  by (simp add: run)

text \<open>
  C6 (amended). With \<^verbatim>\<open>raw\<close> true a call is issued without any container; its data is
  the JSON text of the body itself; and a successful JSON response comes back as the
  \<^verbatim>\<open>DotMap\<close> of the whole decoded body, never through \<^verbatim>\<open>unwrap_envelope\<close>: for a
  decoded object, one \<^verbatim>\<open>DotMap\<close> with the keys and the content of that object, an
  \<^verbatim>\<open>items\<close> key included.
\<close>

theorem raw_request:
  assumes "raw_option kw"
  shows "(py_float e (timeout config) = Inr t \<longrightarrow>
            length (fst (request e config method url params body kw)) = 1)
     \<and> (\<forall>call\<in>set (fst (request e config method url params body kw)).
          (body \<noteq> PNone \<longrightarrow> req_data call = Some (json_dumps e body))
        \<and> (\<forall>resp ct j.
              http e call = Inr resp \<and> 200 \<le> status_code resp \<and> status_code resp < 300
              \<and> resp_headers resp ''Content-Type'' = Some ct \<and> py_substring ''json'' ct
              \<and> resp_json resp = Some j \<longrightarrow>
              snd (request e config method url params body kw)
                = (case DotMap (dotmap_other e) j of
                     Inl err \<Rightarrow> Inl err
                   | Inr d \<Rightarrow> Inr (status_code resp, resp_headers resp, Decoded d))
              \<and> (is_dict j \<longrightarrow>
                   snd (request e config method url params body kw)
                     = Inr (status_code resp, resp_headers resp, Decoded (dotmap_value j))
                   \<and> keys (dotmap_value j) = py_keys j
                   \<and> toDict (dotmap_value j) = j)))"
proof (intro conjI impI ballI allI)
  assume b: "py_float e (timeout config) = Inr t"
  have a: "body = PNone \<or> raw_option kw \<or> kw_container kw \<noteq> None"
    using assms by simp
  from request_args_succeeds [OF a b, of "method" url params]
  obtain call where c: "request_args e config method url params body kw = Inr call" ..
  from request_one_call [OF c]
  show "length (fst (request e config method url params body kw)) = 1"
    by simp
next
  fix call
  assume "call \<in> set (fst (request e config method url params body kw))"
    and nb: "body \<noteq> PNone"
  then have c: "request_args e config method url params body kw = Inr call"
    by (simp only: request_calls)
  from request_args_data [OF c] assms nb
  show "req_data call = Some (json_dumps e body)"
    by simp
next
  fix call resp ct j
  assume call: "call \<in> set (fst (request e config method url params body kw))"
    and h: "http e call = Inr resp \<and> 200 \<le> status_code resp \<and> status_code resp < 300
              \<and> resp_headers resp ''Content-Type'' = Some ct \<and> py_substring ''json'' ct
              \<and> resp_json resp = Some j"
  from h have r: "http e call = Inr resp" ..
  from h have h1: "200 \<le> status_code resp" and h2: "status_code resp < 300"
    and h3: "resp_headers resp ''Content-Type'' = Some ct" and h4: "py_substring ''json'' ct"
    and h5: "resp_json resp = Some j"
    by blast+
  have "read_response (dotmap_other e) (raw_option kw) resp =
     (case (if raw_option kw then DotMap (dotmap_other e) j
            else unwrap_envelope (dotmap_other e) j) of
        Inl err \<Rightarrow> Inl err
      | Inr d \<Rightarrow> Inr (status_code resp, resp_headers resp, Decoded d))"
    by (rule read_response_json [OF h1 h2 h3 h4 h5])
  with assms request_response [OF call r]
  show res: "snd (request e config method url params body kw)
                = (case DotMap (dotmap_other e) j of
                     Inl err \<Rightarrow> Inl err
                   | Inr d \<Rightarrow> Inr (status_code resp, resp_headers resp, Decoded d))"
    by simp
  {
    assume d: "is_dict j"
    then obtain kvs where j: "j = PDict kvs" by (cases j) simp_all
    from res show "snd (request e config method url params body kw)
                     = Inr (status_code resp, resp_headers resp, Decoded (dotmap_value j))"
      by (simp only: j DotMap_dict sum.case)
    from d show "keys (dotmap_value j) = py_keys j"
      by (rule keys_dotmap_value_dict)
    show "toDict (dotmap_value j) = j"
      by (rule toDict_dotmap_value)
  }
qed

theorem raw_request_witness:
  "raw_option (no_kwargs\<lparr>kw_raw := Some (PBool True)\<rparr>)
   \<and> map req_data (fst (request
         (serve (json_response 200 ''ok'' (PDict [(''items'', PList [PDict [(''id'', PInt 1)]])])))
         example_config ''post'' ''/components'' PNone (PDict [(''name'', PStr ''x'')])
         (no_kwargs\<lparr>kw_raw := Some (PBool True)\<rparr>)))
       = [Some (''{'' @ [CHR 0x22] @ ''name'' @ [CHR 0x22] @ '': '' @ [CHR 0x22] @ ''x''
                @ [CHR 0x22] @ ''}'')]
   \<and> snd (request
         (serve (json_response 200 ''ok'' (PDict [(''items'', PList [PDict [(''id'', PInt 1)]])])))
         example_config ''post'' ''/components'' PNone (PDict [(''name'', PStr ''x'')])
         (no_kwargs\<lparr>kw_raw := Some (PBool True)\<rparr>))
       = Inr (200, [''Content-Type'' \<mapsto> ''application/json''],
              Decoded (DotMapV [(''items'', ListV [DotMapV [(''id'', Plain (PInt 1))]])]))"
  using raw_request [of "no_kwargs\<lparr>kw_raw := Some (PBool True)\<rparr>"
      "serve (json_response 200 ''ok'' (PDict [(''items'', PList [PDict [(''id'', PInt 1)]])]))"
      example_config 10 "''post''" "''/components''" PNone "PDict [(''name'', PStr ''x'')]"]
  by (simp add: run dumps_str_def escape_char_def)

subsection \<open>Error responses\<close>

lemma handle_error_response_not_json:
  "resp_json resp = None \<Longrightarrow>
   handle_error_response resp =
     Inl (PyException (''Unknown HTTP error response. Json expected. HTTP response code=''
            @ str_int (status_code resp) @ ''. HTTP response body='' @ resp_text resp))"
  by (simp add: handle_error_response_def)

lemma handle_error_response_json:
  "resp_json resp = Some errors \<Longrightarrow>
   handle_error_response resp =
     (if status_code resp = 422 then Inl (BaseError_init ResourceError (status_code resp) errors)
      else if status_code resp = 420 then Inl RateLimitError
      else if 400 \<le> status_code resp \<and> status_code resp < 500
        then Inl (BaseError_init RequestError (status_code resp) errors)
      else if 500 \<le> status_code resp \<and> status_code resp < 600
        then Inl (BaseError_init ServerError (status_code resp) errors)
      else Inl (PyException ''Unknown HTTP error response''))"
  by (simp add: handle_error_response_def Let_def)

lemma BaseError_init_iterable:
  "py_iter errors = Inr es \<Longrightarrow> BaseError_init cls code errors = cls code errors"
  by (simp add: BaseError_init_def)

lemma request_raises:
  assumes "call \<in> set (fst (request e config method url params body kw))"
    and "http e call = Inr resp"
    and "\<not> (200 \<le> status_code resp \<and> status_code resp < 300)"
  shows "\<exists>err. handle_error_response resp = Inl err
           \<and> snd (request e config method url params body kw) = Inl err"
proof -
  from handle_error_response_raises [of resp]
  obtain err where err: "handle_error_response resp = Inl err" ..
  from request_error [OF assms err] err show ?thesis
    by blast
qed

text \<open>
  A response with status 420 whose body is plain text: the call fails with the
  \<^verbatim>\<open>Exception\<close> for an undecodable body, not with \<^verbatim>\<open>RateLimitError\<close>.
\<close>

theorem rate_limit_counterexample:
  "status_code (text_response 420 ''slow down'') = 420
   \<and> snd (request (serve (text_response 420 ''slow down'')) example_config ''get''
           ''/components'' PNone PNone no_kwargs)
       = Inl (PyException ''Unknown HTTP error response. Json expected. HTTP response code=420. HTTP response body=slow down'')
   \<and> snd (request (serve (text_response 420 ''slow down'')) example_config ''get''
           ''/components'' PNone PNone no_kwargs) \<noteq> Inl RateLimitError"
  by (simp add: run)

text \<open>
  C2 (amended). A response with status 420 whose body decodes as JSON makes the call
  fail with \<^verbatim>\<open>RateLimitError\<close>, which carries nothing.
\<close>

theorem rate_limit_json:
  assumes "status_code resp = 420" and "resp_json resp = Some j"
  shows "handle_error_response resp = Inl RateLimitError
     \<and> (\<forall>call\<in>set (fst (request e config method url params body kw)).
          http e call = Inr resp \<longrightarrow>
          snd (request e config method url params body kw) = Inl RateLimitError)"
proof (intro conjI ballI impI)
  show h: "handle_error_response resp = Inl RateLimitError"
    using assms by (simp add: handle_error_response_json)
  fix call
  assume call: "call \<in> set (fst (request e config method url params body kw))"
    and r: "http e call = Inr resp"
  have "\<not> (200 \<le> status_code resp \<and> status_code resp < 300)"
    using assms(1) by simp
  from request_error [OF call r this h]
  show "snd (request e config method url params body kw) = Inl RateLimitError" .
qed

theorem rate_limit_json_witness:
  "status_code (json_response 420 ''[]'' (PList [])) = 420
   \<and> resp_json (json_response 420 ''[]'' (PList [])) = Some (PList [])
   \<and> fst (request (serve (json_response 420 ''[]'' (PList []))) example_config ''get''
           ''/components'' PNone PNone no_kwargs) \<noteq> []
   \<and> snd (request (serve (json_response 420 ''[]'' (PList []))) example_config ''get''
           ''/components'' PNone PNone no_kwargs) = Inl RateLimitError"
  using rate_limit_json [of "json_response 420 ''[]'' (PList [])" "PList []"
      "serve (json_response 420 ''[]'' (PList []))" example_config "''get''" "''/components''"
      PNone PNone no_kwargs]
  by (simp add: run)

text \<open>
  A response with status 300 and the JSON body \<^verbatim>\<open>[]\<close>: the message of the
  \<^verbatim>\<open>Exception\<close> holds neither the status code nor the text of the response.
\<close>

theorem unknown_error_counterexample:
  "\<not> (200 \<le> status_code (json_response 300 ''[]'' (PList []))
        \<and> status_code (json_response 300 ''[]'' (PList [])) < 300)
   \<and> \<not> (400 \<le> status_code (json_response 300 ''[]'' (PList []))
        \<and> status_code (json_response 300 ''[]'' (PList [])) < 600)
   \<and> snd (request (serve (json_response 300 ''[]'' (PList []))) example_config ''get''
           ''/components'' PNone PNone no_kwargs)
       = Inl (PyException ''Unknown HTTP error response'')
   \<and> \<not> py_substring ''300'' ''Unknown HTTP error response''
   \<and> \<not> py_substring ''[]'' ''Unknown HTTP error response''"
  by (simp add: run)

text \<open>
  C3 (amended). When the body of a response does not decode as JSON, the error handler
  raises an \<^verbatim>\<open>Exception\<close> whose message holds the status code and ends with the
  text of the response. When the body decodes and the status is outside 400 to 599, it raises an
  \<^verbatim>\<open>Exception\<close> with the fixed message \<^verbatim>\<open>Unknown HTTP error response\<close>. A call whose
  response is outside 200 to 299 fails with what the error handler raises.
\<close>

theorem unknown_error:
  "(resp_json resp = None \<longrightarrow>
      handle_error_response resp =
        Inl (PyException (''Unknown HTTP error response. Json expected. HTTP response code=''
               @ str_int (status_code resp) @ ''. HTTP response body='' @ resp_text resp)))
   \<and> (resp_json resp = Some j \<and> \<not> (400 \<le> status_code resp \<and> status_code resp < 600) \<longrightarrow>
      handle_error_response resp = Inl (PyException ''Unknown HTTP error response''))
   \<and> (\<forall>call\<in>set (fst (request e config method url params body kw)).
        http e call = Inr resp \<and> \<not> (200 \<le> status_code resp \<and> status_code resp < 300) \<longrightarrow>
        (\<exists>err. handle_error_response resp = Inl err
           \<and> snd (request e config method url params body kw) = Inl err))"
proof (intro conjI ballI impI)
  assume "resp_json resp = None"
  then show "handle_error_response resp =
        Inl (PyException (''Unknown HTTP error response. Json expected. HTTP response code=''
               @ str_int (status_code resp) @ ''. HTTP response body='' @ resp_text resp))"
    by (rule handle_error_response_not_json)
next
  assume h: "resp_json resp = Some j \<and> \<not> (400 \<le> status_code resp \<and> status_code resp < 600)"
  then have j: "resp_json resp = Some j" ..
  from h have "\<not> (400 \<le> status_code resp \<and> status_code resp < 600)" ..
  then show "handle_error_response resp = Inl (PyException ''Unknown HTTP error response'')"
    by (auto simp add: handle_error_response_json [OF j])
next
  fix call
  assume call: "call \<in> set (fst (request e config method url params body kw))"
    and h: "http e call = Inr resp \<and> \<not> (200 \<le> status_code resp \<and> status_code resp < 300)"
  from h have r: "http e call = Inr resp" ..
  from h have n: "\<not> (200 \<le> status_code resp \<and> status_code resp < 300)" ..
  from request_raises [OF call r n]
  show "\<exists>err. handle_error_response resp = Inl err
           \<and> snd (request e config method url params body kw) = Inl err" .
qed

theorem unknown_error_witness:
  "resp_json (text_response 500 ''Internal Error'') = None
   \<and> snd (request (serve (text_response 500 ''Internal Error'')) example_config ''get''
           ''/components'' PNone PNone no_kwargs)
       = Inl (PyException ''Unknown HTTP error response. Json expected. HTTP response code=500. HTTP response body=Internal Error'')
   \<and> handle_error_response (json_response 300 ''[]'' (PList []))
       = Inl (PyException ''Unknown HTTP error response'')"
  using unknown_error [of "text_response 500 ''Internal Error''" PNone
      "serve (text_response 500 ''Internal Error'')" example_config "''get''" "''/components''"
      PNone PNone no_kwargs]
    unknown_error [of "json_response 300 ''[]'' (PList [])" "PList []"
      "serve (json_response 300 ''[]'' (PList []))" example_config "''get''" "''/components''"
      PNone PNone no_kwargs]
  by (simp add: run)

text \<open>
  A response with status 422 and the JSON body \<^verbatim>\<open>null\<close>: building the
  \<^verbatim>\<open>ResourceError\<close> iterates over \<^verbatim>\<open>None\<close>, and the call fails with \<^verbatim>\<open>TypeError\<close>.
\<close>

theorem error_classes_counterexample:
  "status_code (json_response 422 ''null'' PNone) = 422
   \<and> resp_json (json_response 422 ''null'' PNone) = Some PNone
   \<and> snd (request (serve (json_response 422 ''null'' PNone)) example_config ''get''
           ''/components'' PNone PNone no_kwargs) = Inl TypeError
   \<and> snd (request (serve (json_response 422 ''null'' PNone)) example_config ''get''
           ''/components'' PNone PNone no_kwargs) \<noteq> Inl (ResourceError 422 PNone)"
  by (simp add: run)

text \<open>
  C5 (amended). For a response whose body decodes as JSON into a value that can be
  iterated over (a list, an object or a string): status 422 raises
  \<^verbatim>\<open>ResourceError\<close>, any other status from 400 to 499 except 420 raises
  \<^verbatim>\<open>RequestError\<close>, and a status from 500 to 599 raises \<^verbatim>\<open>ServerError\<close>, each with
  the status and the decoded payload; and the call fails with that error.
\<close>

theorem error_classes:
  assumes "resp_json resp = Some errors" and "py_iter errors = Inr es"
  shows "(status_code resp = 422 \<longrightarrow>
            handle_error_response resp = Inl (ResourceError 422 errors))
     \<and> (400 \<le> status_code resp \<and> status_code resp < 500 \<and> status_code resp \<noteq> 422
          \<and> status_code resp \<noteq> 420 \<longrightarrow>
            handle_error_response resp = Inl (RequestError (status_code resp) errors))
     \<and> (500 \<le> status_code resp \<and> status_code resp < 600 \<longrightarrow>
            handle_error_response resp = Inl (ServerError (status_code resp) errors))
     \<and> (\<forall>call\<in>set (fst (request e config method url params body kw)).
          http e call = Inr resp \<and> \<not> (200 \<le> status_code resp \<and> status_code resp < 300) \<longrightarrow>
          (\<exists>err. handle_error_response resp = Inl err
             \<and> snd (request e config method url params body kw) = Inl err))"
proof (intro conjI ballI impI)
  assume "status_code resp = 422"
  then show "handle_error_response resp = Inl (ResourceError 422 errors)"
    by (simp add: handle_error_response_json [OF assms(1)] BaseError_init_iterable [OF assms(2)])
next
  assume "400 \<le> status_code resp \<and> status_code resp < 500 \<and> status_code resp \<noteq> 422
          \<and> status_code resp \<noteq> 420"
  then show "handle_error_response resp = Inl (RequestError (status_code resp) errors)"
    by (simp add: handle_error_response_json [OF assms(1)] BaseError_init_iterable [OF assms(2)])
next
  assume "500 \<le> status_code resp \<and> status_code resp < 600"
  then show "handle_error_response resp = Inl (ServerError (status_code resp) errors)"
    by (simp add: handle_error_response_json [OF assms(1)] BaseError_init_iterable [OF assms(2)])
next
  fix call
  assume call: "call \<in> set (fst (request e config method url params body kw))"
    and h: "http e call = Inr resp \<and> \<not> (200 \<le> status_code resp \<and> status_code resp < 300)"
  from h have r: "http e call = Inr resp" ..
  from h have n: "\<not> (200 \<le> status_code resp \<and> status_code resp < 300)" ..
  from request_raises [OF call r n]
  show "\<exists>err. handle_error_response resp = Inl err
           \<and> snd (request e config method url params body kw) = Inl err" .
qed

theorem error_classes_witness:
  "py_iter (PList [PDict [(''code'', PStr ''invalid''), (''field'', PStr ''name'')]])
     = Inr [PDict [(''code'', PStr ''invalid''), (''field'', PStr ''name'')]]
   \<and> snd (request
         (serve (json_response 422 ''''
            (PList [PDict [(''code'', PStr ''invalid''), (''field'', PStr ''name'')]])))
         example_config ''get'' ''/components'' PNone PNone no_kwargs)
       = Inl (ResourceError 422
            (PList [PDict [(''code'', PStr ''invalid''), (''field'', PStr ''name'')]]))
   \<and> handle_error_response (json_response 404 '''' (PDict [(''error'', PStr ''Not found'')]))
       = Inl (RequestError 404 (PDict [(''error'', PStr ''Not found'')]))
   \<and> handle_error_response (json_response 503 '''' (PStr ''down''))
       = Inl (ServerError 503 (PStr ''down''))"
  using error_classes [of
      "json_response 422 '''' (PList [PDict [(''code'', PStr ''invalid''), (''field'', PStr ''name'')]])"
      "PList [PDict [(''code'', PStr ''invalid''), (''field'', PStr ''name'')]]"
      "[PDict [(''code'', PStr ''invalid''), (''field'', PStr ''name'')]]"
      "serve (json_response 422 '''' (PList [PDict [(''code'', PStr ''invalid''), (''field'', PStr ''name'')]]))"
      example_config "''get''" "''/components''" PNone PNone no_kwargs]
    error_classes [of "json_response 404 '''' (PDict [(''error'', PStr ''Not found'')])"
      "PDict [(''error'', PStr ''Not found'')]" "[PStr ''error'']"
      "serve (json_response 404 '''' (PDict [(''error'', PStr ''Not found'')]))"
      example_config "''get''" "''/components''" PNone PNone no_kwargs]
    error_classes [of "json_response 503 '''' (PStr ''down'')"
      "PStr ''down''" "[PStr ''d'', PStr ''o'', PStr ''w'', PStr ''n'']"
      "serve (json_response 503 '''' (PStr ''down''))"
      example_config "''get''" "''/components''" PNone PNone no_kwargs]
  by (simp add: run)

subsection \<open>Configuration errors\<close>

lemma request_unvalidated_missing_key:
  "opt_api_key opts = None \<Longrightarrow>
   request_unvalidated e opts method url params body kw = ([], Inl TypeError)"
  by (simp add: request_unvalidated_def)

lemma client_request_valid:
  assumes "opt_api_key opts = Some key" and "valid_api_key rules key"
    and "opt_base_url opts = Some u" and "valid_base_url rules u"
  shows "client_request rules e opts method url params body kw =
           request e \<lparr>base_url = u, api_key = key, timeout = opt_timeout opts,
                      verify_ssl = opt_verify_ssl opts\<rparr> method url params body kw"
  using assms by (simp add: client_request_def validate_def request_unvalidated_def)

text \<open>
  C4. When the API key or the base URL of the configuration is missing or invalid, every
  request operation of the client fails with \<^verbatim>\<open>ConfigurationError\<close> and has issued no
  call.
\<close>

theorem configuration_error:
  assumes "opt_api_key opts = None
      \<or> (\<exists>key. opt_api_key opts = Some key \<and> \<not> valid_api_key rules key)
      \<or> opt_base_url opts = None
      \<or> (\<exists>u. opt_base_url opts = Some u \<and> \<not> valid_base_url rules u)"
  shows "client_request rules e opts method url params body kw
           = ([], Inl (ConfigurationError (fault_message rules opts)))"
proof -
  from assms
  have "(case opt_api_key opts of None \<Rightarrow> True | Some key \<Rightarrow> \<not> valid_api_key rules key)
         \<or> (case opt_base_url opts of None \<Rightarrow> True | Some u \<Rightarrow> \<not> valid_base_url rules u)"
    by (cases "opt_api_key opts"; cases "opt_base_url opts") auto
  then have "validate rules opts = Inl (ConfigurationError (fault_message rules opts))"
    by (simp only: validate_def if_True)
  then show ?thesis
    by (simp add: client_request_def)
qed

theorem configuration_error_witness:
  "opt_api_key (example_options\<lparr>opt_api_key := None\<rparr>) = None
   \<and> client_request example_rules (serve (text_response 200 ''ok''))
        (example_options\<lparr>opt_api_key := None\<rparr>) ''get'' ''/components'' PNone PNone no_kwargs
       = ([], Inl (ConfigurationError ''No API key provided''))
   \<and> opt_base_url (example_options\<lparr>opt_base_url := Some []\<rparr>) = Some []
   \<and> \<not> valid_base_url example_rules []
   \<and> client_request example_rules (serve (text_response 200 ''ok''))
        (example_options\<lparr>opt_base_url := Some []\<rparr>) ''post'' ''/components'' PNone
        (PDict [(''name'', PStr ''x'')]) no_kwargs
       = ([], Inl (ConfigurationError ''Invalid configuration''))"
  using configuration_error [of "example_options\<lparr>opt_api_key := None\<rparr>" example_rules
      "serve (text_response 200 ''ok'')" "''get''" "''/components''" PNone PNone no_kwargs]
    configuration_error [of "example_options\<lparr>opt_base_url := Some []\<rparr>" example_rules
      "serve (text_response 200 ''ok'')" "''post''" "''/components''" PNone
      "PDict [(''name'', PStr ''x'')]" no_kwargs]
  by (simp add: example_rules_def example_options_def)

end
